theory Spec2Isabelle
  imports Main "HOL-Library.AList"
begin

section \<open>JavaScript values and the built-ins the program uses\<close>

text \<open>
  The program is JavaScript. Its values are modelled by one datatype: the primitives, and
  \<open>Ref a\<close> for an object, which is a reference to address \<open>a\<close> of a heap (objects are
  never copied by assignment, argument passing or return). Numbers are the integer-valued
  ones; strings are byte strings.
\<close>

datatype jsval = Undefined | Null | Bool bool | Num int | Str string | Ref nat

text \<open>\<open>ToBoolean\<close>: what \<open>if (x)\<close>, \<open>!x\<close> and \<open>x || y\<close> test.\<close>

fun truthy :: "jsval \<Rightarrow> bool" where
  "truthy Undefined = False"
| "truthy Null = False"
| "truthy (Bool b) = b"
| "truthy (Num n) = (n \<noteq> 0)"
| "truthy (Str s) = (s \<noteq> [])"
| "truthy (Ref a) = True"

definition digit_char :: "nat \<Rightarrow> char" where
  "digit_char n = char_of (48 + n)"

fun nat_digits :: "nat \<Rightarrow> string" where
  "nat_digits n = (if n < 10 then [digit_char n] else nat_digits (n div 10) @ [digit_char (n mod 10)])"

declare nat_digits.simps [simp del]

definition int_digits :: "int \<Rightarrow> string" where
  "int_digits i = (if i < 0 then CHR ''-'' # nat_digits (nat (- i)) else nat_digits (nat i))"

text \<open>\<open>ToString\<close>, as a template literal \<open>`${x}`\<close> applies it (a plain object prints as
  \<open>[object Object]\<close>).\<close>

fun ToString :: "jsval \<Rightarrow> string" where
  "ToString Undefined = ''undefined''"
| "ToString Null = ''null''"
| "ToString (Bool b) = (if b then ''true'' else ''false'')"
| "ToString (Num n) = int_digits n"
| "ToString (Str s) = s"
| "ToString (Ref a) = ''[object Object]''"

subsection \<open>\<open>parseInt\<close> and the conversion of a string to a number\<close>

text \<open>White space of the ASCII range: tab, line feed, vertical tab, form feed, carriage
  return, space.\<close>

definition is_ws :: "char \<Rightarrow> bool" where
  "is_ws c = (of_char c \<in> {9, 10, 11, 12, 13, 32 :: nat})"

text \<open>The value of a character as a digit (\<open>0-9\<close>, \<open>a-z\<close>, \<open>A-Z\<close>), if it is one.\<close>

definition digit_of :: "char \<Rightarrow> nat option" where
  "digit_of c =
     (let n = of_char c :: nat in
      if 48 \<le> n \<and> n \<le> 57 then Some (n - 48)
      else if 97 \<le> n \<and> n \<le> 122 then Some (n - 87)
      else if 65 \<le> n \<and> n \<le> 90 then Some (n - 55)
      else None)"

definition is_digit :: "nat \<Rightarrow> char \<Rightarrow> bool" where
  "is_digit radix c = (case digit_of c of None \<Rightarrow> False | Some d \<Rightarrow> d < radix)"

definition digits_value :: "nat \<Rightarrow> string \<Rightarrow> nat" where
  "digits_value radix cs = foldl (\<lambda>acc c. acc * radix + the (digit_of c)) 0 cs"

definition starts_with :: "string \<Rightarrow> string \<Rightarrow> bool" where
  "starts_with p s = (take (length p) s = p)"

text \<open>
  \<open>parseInt(s)\<close> with no radix: leading white space is skipped, a sign is read, a prefix
  \<open>0x\<close> or \<open>0X\<close> selects radix 16, and the longest run of digits is the value; whatever
  follows is ignored. With no digit the result is \<open>NaN\<close>, here \<open>None\<close>.
\<close>

definition parseInt :: "string \<Rightarrow> int option" where
  "parseInt s =
     (let s1 = dropWhile is_ws s;
          neg = starts_with ''-'' s1;
          s2 = (if starts_with ''-'' s1 \<or> starts_with ''+'' s1 then tl s1 else s1);
          hex = (starts_with ''0x'' s2 \<or> starts_with ''0X'' s2);
          radix = (if hex then 16 else 10);
          s3 = (if hex then drop 2 s2 else s2);
          z = takeWhile (is_digit radix) s3
      in if z = [] then None
         else Some ((if neg then - 1 else 1) * int (digits_value radix z)))"

text \<open>
  A number read from a string: \<open>NaN\<close>, an infinity (\<open>True\<close> for the negative one), or the
  exact decimal \<open>m * 10 ^ e\<close> that the literal denotes.
\<close>

datatype jsnum = NaN | Infinity bool | Dec int int

definition trim :: "string \<Rightarrow> string" where
  "trim s = rev (dropWhile is_ws (rev (dropWhile is_ws s)))"

definition all_digits :: "nat \<Rightarrow> string \<Rightarrow> bool" where
  "all_digits radix s = (s \<noteq> [] \<and> list_all (is_digit radix) s)"

text \<open>\<open>StrUnsignedDecimalLiteral\<close>: \<open>Infinity\<close>, or digits with an optional fraction and an
  optional exponent; at least one digit before the exponent.\<close>

definition unsigned_decimal :: "string \<Rightarrow> jsnum" where
  "unsigned_decimal u =
     (if u = ''Infinity'' then Infinity False
      else
        let ip = takeWhile (is_digit 10) u;
            r1 = dropWhile (is_digit 10) u;
            dot = starts_with ''.'' r1;
            fp = (if dot then takeWhile (is_digit 10) (tl r1) else []);
            r2 = (if dot then dropWhile (is_digit 10) (tl r1) else r1);
            m = int (digits_value 10 (ip @ fp))
        in if ip = [] \<and> fp = [] then NaN
           else if r2 = [] then Dec m (- int (length fp))
           else if starts_with ''e'' r2 \<or> starts_with ''E'' r2 then
             (let r3 = tl r2;
                  eneg = starts_with ''-'' r3;
                  r4 = (if starts_with ''-'' r3 \<or> starts_with ''+'' r3 then tl r3 else r3)
              in if all_digits 10 r4
                 then Dec m ((if eneg then - 1 else 1) * int (digits_value 10 r4) - int (length fp))
                 else NaN)
           else NaN)"

definition negate :: "jsnum \<Rightarrow> jsnum" where
  "negate x = (case x of NaN \<Rightarrow> NaN | Infinity b \<Rightarrow> Infinity (\<not> b) | Dec m e \<Rightarrow> Dec (- m) e)"

text \<open>
  \<open>StringToNumber\<close>, the conversion behind \<open>Number(s)\<close>, \<open>isNaN(s)\<close> and \<open>s > 0\<close>: white
  space is trimmed at both ends, the empty string is 0, a prefix \<open>0x\<close>, \<open>0o\<close> or \<open>0b\<close>
  (unsigned) gives an integer of that radix, and anything else must be a signed decimal
  literal as a whole.
\<close>

definition StringToNumber :: "string \<Rightarrow> jsnum" where
  "StringToNumber s =
     (let u = trim s in
      if u = [] then Dec 0 0
      else if starts_with ''0x'' u \<or> starts_with ''0X'' u then
        (if all_digits 16 (drop 2 u) then Dec (int (digits_value 16 (drop 2 u))) 0 else NaN)
      else if starts_with ''0o'' u \<or> starts_with ''0O'' u then
        (if all_digits 8 (drop 2 u) then Dec (int (digits_value 8 (drop 2 u))) 0 else NaN)
      else if starts_with ''0b'' u \<or> starts_with ''0B'' u then
        (if all_digits 2 (drop 2 u) then Dec (int (digits_value 2 (drop 2 u))) 0 else NaN)
      else if starts_with ''-'' u then negate (unsigned_decimal (tl u))
      else if starts_with ''+'' u then unsigned_decimal (tl u)
      else unsigned_decimal u)"

definition isNaN :: "string \<Rightarrow> bool" where
  "isNaN s = (StringToNumber s = NaN)"

text \<open>
  \<open>s > 0\<close> for a string \<open>s\<close>: the string is converted to a number, which is rounded to a
  double; a positive decimal stays positive unless it is at most \<open>2 ^ - 1075\<close>, half of the
  smallest double.
\<close>

definition greater_than_zero :: "string \<Rightarrow> bool" where
  "greater_than_zero s =
     (case StringToNumber s of
        NaN \<Rightarrow> False
      | Infinity neg \<Rightarrow> \<not> neg
      | Dec m e \<Rightarrow> (if 0 \<le> e then 0 < m else 10 ^ nat (- e) < m * 2 ^ 1075))"


text \<open>\<open>encodeURIComponent\<close> on a byte string: letters, digits and \<open>- _ . ! ~ * ' ( )\<close>
  stay, every other byte becomes \<open>%XX\<close>.\<close>

definition hex_char :: "nat \<Rightarrow> char" where
  "hex_char n = (if n < 10 then char_of (48 + n) else char_of (55 + n))"

definition unreserved :: "char \<Rightarrow> bool" where
  "unreserved c =
     (let n = of_char c :: nat in
      (65 \<le> n \<and> n \<le> 90) \<or> (97 \<le> n \<and> n \<le> 122) \<or> (48 \<le> n \<and> n \<le> 57)
      \<or> n \<in> {45, 95, 46, 33, 126, 42, 39, 40, 41})"

definition encodeURIComponent :: "string \<Rightarrow> string" where
  "encodeURIComponent s =
     concat (map (\<lambda>c. if unreserved c then [c]
                       else [CHR ''%'', hex_char (of_char c div 16), hex_char (of_char c mod 16)]) s)"

subsection \<open>Responses and errors\<close>

text \<open>
  A response of the upstream provider, as the HTTP client \<open>axios\<close> hands it over:
  \<open>response_data\<close> is the field \<open>data\<close> and \<open>response_message\<close> is
  \<open>data?.message\<close> (\<open>Undefined\<close> when the body has no such field). An error object is
  a plain \<open>Error\<close> with its message, or an error of \<open>axios\<close> that carries the response
  (\<open>error.response\<close>), or one that carries only the request (\<open>error.request\<close>).
\<close>

record response =
  status :: int
  statusText :: string
  response_data :: jsval
  response_message :: jsval

datatype js_error = Error string | HasResponse response | HasRequest

section \<open>The cache store\<close>

subsection \<open>The \<open>node-cache\<close> object\<close>

text \<open>
  The store is an object of the npm package \<open>node-cache\<close>, created with
  \<open>new NodeCache({stdTTL: cacheExpiration, checkperiod: ..., useClones: false})\<close>. The
  package is a dependency of the program; the definitions of this subsection follow the
  package's own code for that configuration (\<open>deleteOnExpire\<close> and \<open>maxKeys\<close> at their
  defaults, \<open>true\<close> and no limit):
  \<^item> an entry is \<open>{t, v}\<close>, with \<open>v\<close> the value and \<open>t\<close> the time in milliseconds after
    which it is expired, \<open>0\<close> for an entry that never expires;
  \<^item> with \<open>useClones: false\<close> (``don't clone data'', as the program's comment puts it)
    \<open>set\<close> stores the value it is given and \<open>get\<close> returns the stored value, with no
    copy: for an object, the reference itself;
  \<^item> the counters are \<open>hits\<close>, \<open>misses\<close> and \<open>keys\<close> (the two size estimates
    \<open>ksize\<close> and \<open>vsize\<close> are left out);
  \<^item> a key must be a string or a number, otherwise the call throws the error that the
    package names \<open>EKEYTYPE\<close>.
  The clock \<open>Date.now()\<close> is the argument \<open>now\<close> of every operation. The periodic
  sweep of the package and the timer of the program that logs the statistics run between
  the calls; no call modelled here depends on them.
\<close>

record entry =
  entry_t :: int
  entry_v :: jsval

record cache_stats =
  hits :: nat
  misses :: nat
  keys :: int

record NodeCache =
  data :: "string \<rightharpoonup> entry"
  stats :: cache_stats
  stdTTL :: int

definition new_NodeCache :: "int \<Rightarrow> NodeCache" where
  "new_NodeCache ttl = \<lparr>data = Map.empty, stats = \<lparr>hits = 0, misses = 0, keys = 0\<rparr>, stdTTL = ttl\<rparr>"

definition isInvalidKey :: "jsval \<Rightarrow> bool" where
  "isInvalidKey key = (case key of Str s \<Rightarrow> False | Num n \<Rightarrow> False | _ \<Rightarrow> True)"

definition EKEYTYPE :: js_error where
  "EKEYTYPE = Error ''The key argument has to be of type `string` or `number`.''"

definition wrap :: "int \<Rightarrow> jsval \<Rightarrow> int \<Rightarrow> entry" where
  "wrap now val ttl = \<lparr>entry_t = (if ttl = 0 then 0 else now + ttl * 1000), entry_v = val\<rparr>"

definition unwrap :: "entry \<Rightarrow> jsval" where
  "unwrap e = (if entry_v e = Undefined \<or> entry_v e = Null then Null else entry_v e)"

definition NodeCache_del :: "string \<Rightarrow> NodeCache \<Rightarrow> nat \<times> NodeCache" where
  "NodeCache_del k c =
     (case data c k of
        None \<Rightarrow> (0, c)
      | Some e \<Rightarrow> (1, c\<lparr>data := (data c)(k := None),
                        stats := (stats c)\<lparr>keys := keys (stats c) - 1\<rparr>\<rparr>))"

text \<open>\<open>_check\<close>: an entry is out of date when its \<open>t\<close> is not 0 and lies before the clock;
  it is then deleted, and the check fails.\<close>

definition check :: "int \<Rightarrow> string \<Rightarrow> entry \<Rightarrow> NodeCache \<Rightarrow> bool \<times> NodeCache" where
  "check now k e c =
     (if entry_t e \<noteq> 0 \<and> entry_t e < now then (False, snd (NodeCache_del k c)) else (True, c))"

definition NodeCache_get :: "int \<Rightarrow> jsval \<Rightarrow> NodeCache \<Rightarrow> (js_error + jsval) \<times> NodeCache" where
  "NodeCache_get now key c =
     (if isInvalidKey key then (Inl EKEYTYPE, c)
      else case data c (ToString key) of
        None \<Rightarrow> (Inr Undefined, c\<lparr>stats := (stats c)\<lparr>misses := misses (stats c) + 1\<rparr>\<rparr>)
      | Some e \<Rightarrow>
          (case check now (ToString key) e c of
             (True, c1) \<Rightarrow> (Inr (unwrap e), c1\<lparr>stats := (stats c1)\<lparr>hits := hits (stats c1) + 1\<rparr>\<rparr>)
           | (False, c1) \<Rightarrow> (Inr Undefined, c1\<lparr>stats := (stats c1)\<lparr>misses := misses (stats c1) + 1\<rparr>\<rparr>)))"

text \<open>\<open>set(key, value, ttl)\<close>: a missing \<open>ttl\<close> is the store's \<open>stdTTL\<close>; the entry replaces
  whatever the key held; \<open>keys\<close> counts a new key.\<close>

definition NodeCache_set ::
  "int \<Rightarrow> jsval \<Rightarrow> jsval \<Rightarrow> int option \<Rightarrow> NodeCache \<Rightarrow> (js_error + bool) \<times> NodeCache" where
  "NodeCache_set now key val ttl c =
     (let ttl1 = (case ttl of None \<Rightarrow> stdTTL c | Some x \<Rightarrow> x) in
      if isInvalidKey key then (Inl EKEYTYPE, c)
      else
        let existent = (data c (ToString key) \<noteq> None);
            c1 = c\<lparr>data := (data c)(ToString key \<mapsto> wrap now val ttl1)\<rparr>
        in (Inr True,
            if existent then c1 else c1\<lparr>stats := (stats c1)\<lparr>keys := keys (stats c1) + 1\<rparr>\<rparr>))"

text \<open>\<open>flushAll()\<close> drops every entry and starts the counters again from zero.\<close>

definition NodeCache_flushAll :: "NodeCache \<Rightarrow> NodeCache" where
  "NodeCache_flushAll c = c\<lparr>data := Map.empty, stats := \<lparr>hits = 0, misses = 0, keys = 0\<rparr>\<rparr>"

subsection \<open>The cache client\<close>

text \<open>
  The environment of the process. \<open>cacheExpiration\<close> is
  \<open>parseInt(process.env.CACHE_EXPIRATION) || 43200\<close>: an unset variable, a text that is
  not a number and the number 0 all give 43200.
\<close>

record env =
  CACHE_EXPIRATION :: "string option"
  WEATHER_API_KEY :: "string option"
  WEATHER_API_BASE_URL :: "string option"

definition cacheExpiration :: "env \<Rightarrow> int" where
  "cacheExpiration ev =
     (case CACHE_EXPIRATION ev of
        None \<Rightarrow> 43200
      | Some s \<Rightarrow> (case parseInt s of None \<Rightarrow> 43200 | Some n \<Rightarrow> if n = 0 then 43200 else n))"

definition cache :: "env \<Rightarrow> NodeCache" where
  "cache ev = new_NodeCache (cacheExpiration ev)"

text \<open>\<open>cacheClient.get\<close>: the value, \<open>null\<close> for \<open>undefined\<close>, and \<open>null\<close> when the store
  throws.\<close>

definition cacheClient_get :: "int \<Rightarrow> jsval \<Rightarrow> NodeCache \<Rightarrow> (js_error + jsval) \<times> NodeCache" where
  "cacheClient_get now key c =
     (case NodeCache_get now key c of
        (Inr val, c1) \<Rightarrow> (Inr (if val \<noteq> Undefined then val else Null), c1)
      | (Inl err, c1) \<Rightarrow> (Inr Null, c1))"

text \<open>\<open>cacheClient.set(key, value, options)\<close>, with \<open>opt_EX\<close> the field \<open>options.EX\<close> (absent for
  \<open>{}\<close>): the time to live is \<open>options.EX || cacheExpiration\<close>; an error of the store is
  thrown again.\<close>

definition cacheClient_set ::
  "env \<Rightarrow> int \<Rightarrow> jsval \<Rightarrow> jsval \<Rightarrow> int option \<Rightarrow> NodeCache \<Rightarrow> (js_error + string) \<times> NodeCache" where
  "cacheClient_set ev now key val opt_EX c =
     (let ttl = (case opt_EX of None \<Rightarrow> cacheExpiration ev
                 | Some x \<Rightarrow> if x \<noteq> 0 then x else cacheExpiration ev)
      in case NodeCache_set now key val (Some ttl) c of
           (Inr ok, c1) \<Rightarrow> (Inr ''OK'', c1)
         | (Inl err, c1) \<Rightarrow> (Inl err, c1))"

definition cacheClient_del :: "jsval \<Rightarrow> NodeCache \<Rightarrow> nat \<times> NodeCache" where
  "cacheClient_del key c =
     (if isInvalidKey key then (0, c)
      else case NodeCache_del (ToString key) c of (n, c1) \<Rightarrow> (if n \<noteq> 0 then 1 else 0, c1))"

definition cacheClient_flushAll :: "NodeCache \<Rightarrow> (js_error + string) \<times> NodeCache" where
  "cacheClient_flushAll c = (Inr ''OK'', NodeCache_flushAll c)"


section \<open>The weather service\<close>

text \<open>
  A parameter object is the list of its entries in the order \<open>Object.entries\<close> gives them
  (for the names used here, which are not numbers, the order of insertion); each name
  occurs once. \<open>AList.update\<close> assigns a property: in place when the object has it, at the
  end otherwise.
\<close>

type_synonym params = "(string \<times> jsval) list"

definition get_prop :: "params \<Rightarrow> string \<Rightarrow> jsval" where
  "get_prop obj name = (case map_of obj name of None \<Rightarrow> Undefined | Some x \<Rightarrow> x)"

fun join :: "string \<Rightarrow> string list \<Rightarrow> string" where
  "join sep [] = []"
| "join sep [x] = x"
| "join sep (x # y # ys) = x @ sep @ join sep (y # ys)"

definition generateCacheKey :: "string \<Rightarrow> params \<Rightarrow> string" where
  "generateCacheKey location ps =
     (let queryString =
            join ''&'' (map (\<lambda>(key, val). key @ ''='' @ ToString val)
                          (filter (\<lambda>(key, val). val \<noteq> Undefined \<and> val \<noteq> Null) ps))
      in ''weather:'' @ location @ (if queryString \<noteq> [] then '':'' @ queryString else []))"

text \<open>
  The upstream provider is a parameter: what it does with a request, and the milliseconds
  that takes. \<open>axios.get\<close> resolves with a response whose status is within 200..299 and
  rejects otherwise: with the response when there is one, with the request alone when
  nothing came back, with a plain error when the request could not be sent.
\<close>

datatype http_outcome = Responded response | NoResponse | NotSent string

type_synonym upstream = "string \<Rightarrow> params \<Rightarrow> http_outcome \<times> nat"

definition axios_get :: "upstream \<Rightarrow> string \<Rightarrow> params \<Rightarrow> (js_error + response) \<times> nat" where
  "axios_get up url ps =
     (case up url ps of
        (Responded r, dt) \<Rightarrow>
          (if 200 \<le> status r \<and> status r < 300 then (Inr r, dt) else (Inl (HasResponse r), dt))
      | (NoResponse, dt) \<Rightarrow> (Inl HasRequest, dt)
      | (NotSent m, dt) \<Rightarrow> (Inl (Error m), dt))"

text \<open>What a call of \<open>getWeatherData\<close> does besides returning: the requests it sends
  upstream and the calls of \<open>cacheClient.set\<close>, in order.\<close>

datatype event = UpstreamCall string params | CacheSet string

definition request_url :: "env \<Rightarrow> string \<Rightarrow> string" where
  "request_url ev location =
     (case WEATHER_API_BASE_URL ev of None \<Rightarrow> ''undefined'' | Some b \<Rightarrow> b)
     @ ''/'' @ encodeURIComponent location"

definition requestParams :: "string \<Rightarrow> params \<Rightarrow> params" where
  "requestParams apiKey ps =
     AList.update ''unitGroup''
       (if truthy (get_prop ps ''unitGroup'') then get_prop ps ''unitGroup'' else Str ''metric'')
       (AList.update ''key'' (Str apiKey) ps)"

text \<open>The body of the \<open>try\<close> of \<open>getWeatherData\<close>: the result or the error thrown, the
  store afterwards, and the events.\<close>

definition try_block ::
  "env \<Rightarrow> upstream \<Rightarrow> int \<Rightarrow> string \<Rightarrow> params \<Rightarrow> NodeCache
     \<Rightarrow> (js_error + jsval) \<times> NodeCache \<times> event list" where
  "try_block ev up now location ps c =
     (if location = [] then (Inl (Error ''Location is required''), c, [])
      else case WEATHER_API_KEY ev of
        None \<Rightarrow> (Inl (Error ''Weather API key is not configured''), c, [])
      | Some apiKey \<Rightarrow>
          if apiKey = [] then (Inl (Error ''Weather API key is not configured''), c, [])
          else
            let cacheKey = generateCacheKey location ps in
            case cacheClient_get now (Str cacheKey) c of
              (Inl err, c1) \<Rightarrow> (Inl err, c1, [])
            | (Inr cachedData, c1) \<Rightarrow>
                if truthy cachedData then (Inr cachedData, c1, [])
                else
                  let url = request_url ev location;
                      rps = requestParams apiKey ps
                  in case axios_get up url rps of
                       (Inl err, dt) \<Rightarrow> (Inl err, c1, [UpstreamCall url rps])
                     | (Inr resp, dt) \<Rightarrow>
                         if status resp \<noteq> 200
                         then (Inl (Error (''API error: '' @ statusText resp)), c1,
                               [UpstreamCall url rps])
                         else
                           (case cacheClient_set ev (now + int dt) (Str cacheKey)
                                   (response_data resp) (Some (cacheExpiration ev)) c1 of
                              (Inl err, c2) \<Rightarrow>
                                (Inl err, c2, [UpstreamCall url rps, CacheSet cacheKey])
                            | (Inr ok, c2) \<Rightarrow>
                                (Inr (response_data resp), c2,
                                 [UpstreamCall url rps, CacheSet cacheKey])))"

text \<open>The \<open>catch\<close> of \<open>getWeatherData\<close>: the error it throws for the error it caught.\<close>

definition catch_block :: "string \<Rightarrow> js_error \<Rightarrow> js_error" where
  "catch_block location err =
     (case err of
        HasResponse resp \<Rightarrow>
          (let statusCode = status resp;
               errorMessage = (if truthy (response_message resp)
                               then ToString (response_message resp) else statusText resp)
           in if statusCode = 400 then Error (''Invalid request: '' @ errorMessage)
              else if statusCode = 401 \<or> statusCode = 403
                then Error ''Invalid API key or authentication error''
              else if statusCode = 404 then Error (''Location not found: '' @ location)
              else if statusCode = 429 then Error ''API rate limit exceeded''
              else Error (''Weather API error: '' @ errorMessage))
      | HasRequest \<Rightarrow> Error ''No response from weather service. Please try again later.''
      | Error m \<Rightarrow> Error m)"

definition getWeatherData ::
  "env \<Rightarrow> upstream \<Rightarrow> int \<Rightarrow> string \<Rightarrow> params \<Rightarrow> NodeCache
     \<Rightarrow> (js_error + jsval) \<times> NodeCache \<times> event list" where
  "getWeatherData ev up now location ps c =
     (case try_block ev up now location ps c of
        (Inr weatherData, c1, evs) \<Rightarrow> (Inr weatherData, c1, evs)
      | (Inl err, c1, evs) \<Rightarrow> (Inl (catch_block location err), c1, evs))"

section \<open>The forecast route\<close>

text \<open>
  \<open>xs.slice(0, end)\<close> for \<open>end\<close> a number (\<open>None\<close> is \<open>NaN\<close>, which counts as 0): a
  negative end counts from the end of the array, an end beyond it is the whole array.
\<close>

definition slice0 :: "'a list \<Rightarrow> int option \<Rightarrow> 'a list" where
  "slice0 xs end_opt =
     (case end_opt of
        None \<Rightarrow> []
      | Some k \<Rightarrow> if k < 0 then take (nat (int (length xs) + k)) xs else take (nat k) xs)"

text \<open>
  The days of the forecast route, from \<open>weatherData.days\<close> and the query parameter
  \<open>days\<close> (\<open>None\<close> when the query has none):
  \<^verbatim>\<open>if (days && !isNaN(days) && days > 0) forecastDays = forecastDays.slice(0, parseInt(days))\<close>
\<close>

definition forecastDays :: "'a list \<Rightarrow> string option \<Rightarrow> 'a list" where
  "forecastDays weather_days days =
     (case days of
        None \<Rightarrow> weather_days
      | Some s \<Rightarrow>
          if s \<noteq> [] \<and> \<not> isNaN s \<and> greater_than_zero s
          then slice0 weather_days (parseInt s)
          else weather_days)"

section \<open>Objects behind references\<close>

text \<open>
  The heap holds the objects: an address gives the fields of the object that lives there.
  Assigning to a field of an object changes the heap at the object's address, for every
  holder of a reference to it.
\<close>

type_synonym heap = "nat \<rightharpoonup> params"

definition deref :: "heap \<Rightarrow> jsval \<Rightarrow> params option" where
  "deref h x = (case x of Ref a \<Rightarrow> h a | _ \<Rightarrow> None)"

definition assign_field :: "heap \<Rightarrow> jsval \<Rightarrow> string \<Rightarrow> jsval \<Rightarrow> heap" where
  "assign_field h x name val =
     (case x of
        Ref a \<Rightarrow> (case h a of None \<Rightarrow> h | Some obj \<Rightarrow> h(a \<mapsto> AList.update name val obj))
      | _ \<Rightarrow> h)"


section \<open>Notions used by the properties\<close>

text \<open>
  The contents of the store as a reader can observe them at time \<open>now\<close>: the value under
  each key whose entry is not out of date.
\<close>

definition contents :: "int \<Rightarrow> NodeCache \<Rightarrow> string \<Rightarrow> jsval option" where
  "contents now c k =
     (case data c k of
        None \<Rightarrow> None
      | Some e \<Rightarrow> if entry_t e \<noteq> 0 \<and> entry_t e < now then None else Some (entry_v e))"

text \<open>
  The error taxonomy in the specification's words, and its table from the upstream signal
  to the kind of error (no kind for a response within 200..299, and none for a request
  that could not be sent).
\<close>

datatype domain_error =
  InvalidRequest | AuthenticationError | LocationNotFound | RateLimitExceeded
  | UpstreamError | UpstreamUnavailable

definition spec_classify :: "http_outcome \<Rightarrow> domain_error option" where
  "spec_classify signal =
     (case signal of
        Responded resp \<Rightarrow>
          (if 200 \<le> status resp \<and> status resp < 300 then None
           else if status resp = 400 then Some InvalidRequest
           else if status resp = 401 \<or> status resp = 403 then Some AuthenticationError
           else if status resp = 404 then Some LocationNotFound
           else if status resp = 429 then Some RateLimitExceeded
           else Some UpstreamError)
      | NoResponse \<Rightarrow> Some UpstreamUnavailable
      | NotSent m \<Rightarrow> None)"

text \<open>
  The program has no error classes: each kind of the taxonomy is an \<open>Error\<close> with a
  message of its own. \<open>thrown_for\<close> is the error that stands for a kind, for a location and
  for the message of the upstream (\<open>data.message\<close>, or the status text without one).
\<close>

definition errorMessage :: "response \<Rightarrow> string" where
  "errorMessage resp =
     (if truthy (response_message resp) then ToString (response_message resp)
      else statusText resp)"

definition signal_message :: "http_outcome \<Rightarrow> string" where
  "signal_message signal = (case signal of Responded resp \<Rightarrow> errorMessage resp | _ \<Rightarrow> [])"

definition thrown_for :: "domain_error \<Rightarrow> string \<Rightarrow> string \<Rightarrow> js_error" where
  "thrown_for kind location msg =
     (case kind of
        InvalidRequest \<Rightarrow> Error (''Invalid request: '' @ msg)
      | AuthenticationError \<Rightarrow> Error ''Invalid API key or authentication error''
      | LocationNotFound \<Rightarrow> Error (''Location not found: '' @ location)
      | RateLimitExceeded \<Rightarrow> Error ''API rate limit exceeded''
      | UpstreamError \<Rightarrow> Error (''Weather API error: '' @ msg)
      | UpstreamUnavailable \<Rightarrow>
          Error ''No response from weather service. Please try again later.'')"

text \<open>The specification's test for an entry to be observable: the clock is strictly
  before the time of expiry.\<close>

definition spec_observable :: "int \<Rightarrow> entry \<Rightarrow> bool" where
  "spec_observable now e = (now < entry_t e)"

text \<open>The entries of a parameter object that count for the cache key.\<close>

definition defined_entries :: "params \<Rightarrow> params" where
  "defined_entries ps = filter (\<lambda>(key, val). val \<noteq> Undefined \<and> val \<noteq> Null) ps"

text \<open>What a reader sees of the object cached under a key: the fields, in the heap of the
  moment, of the object that \<open>cacheClient.get\<close> returns.\<close>

definition observed :: "heap \<Rightarrow> int \<Rightarrow> string \<Rightarrow> NodeCache \<Rightarrow> params option" where
  "observed h now k c =
     (case fst (cacheClient_get now (Str k) c) of Inr x \<Rightarrow> deref h x | Inl err \<Rightarrow> None)"

subsection \<open>A concrete scenario\<close>

definition example_env :: env where
  "example_env = \<lparr>CACHE_EXPIRATION = None, WEATHER_API_KEY = Some ''KEY'',
                   WEATHER_API_BASE_URL = Some ''https://weather.example/timeline''\<rparr>"

definition london_response :: response where
  "london_response = \<lparr>status = 200, statusText = ''OK'', response_data = Ref 1,
                       response_message = Undefined\<rparr>"

definition not_found_response :: response where
  "not_found_response = \<lparr>status = 404, statusText = ''Not Found'', response_data = Null,
                          response_message = Undefined\<rparr>"

definition stub_upstream :: upstream where
  "stub_upstream url ps = (Responded london_response, 250)"

definition not_found_upstream :: upstream where
  "not_found_upstream url ps = (Responded not_found_response, 40)"

definition silent_upstream :: upstream where
  "silent_upstream url ps = (NoResponse, 3000)"

definition london_params :: params where
  "london_params = [(''unitGroup'', Str ''metric'')]"

definition first_fetch :: "(js_error + jsval) \<times> NodeCache \<times> event list" where
  "first_fetch = getWeatherData example_env stub_upstream 0 ''London'' london_params (cache example_env)"

definition second_fetch :: "(js_error + jsval) \<times> NodeCache \<times> event list" where
  "second_fetch =
     getWeatherData example_env silent_upstream 1000 ''London'' london_params (fst (snd first_fetch))"

definition failed_fetch :: "(js_error + jsval) \<times> NodeCache \<times> event list" where
  "failed_fetch =
     getWeatherData example_env not_found_upstream 0 ''Atlantis'' london_params (cache example_env)"

text \<open>A store with one entry, set at time 0 with a time to live of one second; a store
  that has seen one miss; a store that holds an object of the heap.\<close>

definition store_with_entry :: NodeCache where
  "store_with_entry =
     snd (cacheClient_set example_env 0 (Str ''k'') (Str ''v'') (Some 1) (cache example_env))"

definition store_after_miss :: NodeCache where
  "store_after_miss = snd (cacheClient_get 0 (Str ''k'') (cache example_env))"

definition example_heap :: heap where
  "example_heap = Map.empty(1 \<mapsto> [(''temp'', Num 12)])"

definition store_with_object :: NodeCache where
  "store_with_object =
     snd (cacheClient_set example_env 0 (Str ''k'') (Ref 1) None (cache example_env))"

definition ten_days :: "nat list" where
  "ten_days = [1, 2, 3, 4, 5, 6, 7, 8, 9, 10]"


section \<open>Facts about the cache client\<close>

lemma cacheExpiration_nonzero: "cacheExpiration ev \<noteq> 0"
  by (simp add: cacheExpiration_def split: option.splits)

lemma cacheExpiration_default: "CACHE_EXPIRATION ev = None \<Longrightarrow> cacheExpiration ev = 43200"
  by (simp add: cacheExpiration_def)

lemma cacheClient_get_entry:
  "data c k = Some e \<Longrightarrow>
   cacheClient_get now (Str k) c =
     (if entry_t e \<noteq> 0 \<and> entry_t e < now
      then (Inr Null,
            (snd (NodeCache_del k c))
              \<lparr>stats := (stats (snd (NodeCache_del k c)))
                 \<lparr>misses := misses (stats (snd (NodeCache_del k c))) + 1\<rparr>\<rparr>)
      else (Inr (unwrap e), c\<lparr>stats := (stats c)\<lparr>hits := hits (stats c) + 1\<rparr>\<rparr>))"
  by (simp add: cacheClient_get_def NodeCache_get_def check_def isInvalidKey_def unwrap_def)

lemma cacheClient_get_absent:
  "data c k = None \<Longrightarrow>
   cacheClient_get now (Str k) c =
     (Inr Null, c\<lparr>stats := (stats c)\<lparr>misses := misses (stats c) + 1\<rparr>\<rparr>)"
  by (simp add: cacheClient_get_def NodeCache_get_def isInvalidKey_def)

lemma cacheClient_get_Inr: "\<exists>val c1. cacheClient_get now key c = (Inr val, c1)"
  by (simp add: cacheClient_get_def split: prod.splits sum.splits)

lemma NodeCache_get_cases:
  "NodeCache_get now key c = (r, c1) \<Longrightarrow>
     r = Inl EKEYTYPE \<or> r = Inr Undefined
     \<or> (\<exists>e. data c (ToString key) = Some e \<and> r = Inr (unwrap e))"
  by (auto simp: NodeCache_get_def check_def split: if_splits option.splits)

lemma cacheClient_set_Str:
  "cacheClient_set ev now (Str k) val opt_EX c =
     (Inr ''OK'',
      (if data c k \<noteq> None
       then c\<lparr>data := (data c)(k \<mapsto> wrap now val
                 (case opt_EX of None \<Rightarrow> cacheExpiration ev
                  | Some x \<Rightarrow> if x \<noteq> 0 then x else cacheExpiration ev))\<rparr>
       else c\<lparr>data := (data c)(k \<mapsto> wrap now val
                 (case opt_EX of None \<Rightarrow> cacheExpiration ev
                  | Some x \<Rightarrow> if x \<noteq> 0 then x else cacheExpiration ev)),
              stats := (stats c)\<lparr>keys := keys (stats c) + 1\<rparr>\<rparr>))"
  by (simp add: cacheClient_set_def NodeCache_set_def isInvalidKey_def Let_def)

lemma data_after_set:
  "data (snd (cacheClient_set ev now (Str k) val opt_EX c)) k
     = Some (wrap now val
         (case opt_EX of None \<Rightarrow> cacheExpiration ev
          | Some x \<Rightarrow> if x \<noteq> 0 then x else cacheExpiration ev))"
  by (simp add: cacheClient_set_Str)

lemma cacheClient_get_data:
  assumes "cacheClient_get now (Str k) c = (r, cA)"
  shows "data cA = data c
       \<or> (\<exists>e. data c k = Some e \<and> entry_t e \<noteq> 0 \<and> entry_t e < now
              \<and> data cA = (data c)(k := None))"
proof (cases "data c k")
  case None
  with assms show ?thesis by (auto simp: cacheClient_get_absent)
next
  case (Some e)
  with assms show ?thesis
    by (auto simp: cacheClient_get_entry NodeCache_del_def split: if_splits)
qed

text \<open>A lookup that missed misses again later, as long as nothing is set.\<close>

lemma miss_persists:
  assumes "cacheClient_get now (Str k) c = (Inr val, cA)" and "\<not> truthy val" and "now \<le> now2"
  shows "\<exists>val2 cB. cacheClient_get now2 (Str k) cA = (Inr val2, cB) \<and> \<not> truthy val2"
proof (cases "data c k")
  case None
  with assms have "data cA k = None" by (auto simp: cacheClient_get_absent)
  then show ?thesis by (simp add: cacheClient_get_absent)
next
  case (Some e)
  show ?thesis
  proof (cases "entry_t e \<noteq> 0 \<and> entry_t e < now")
    case True
    with Some assms have "data cA k = None"
      by (auto simp: cacheClient_get_entry NodeCache_del_def)
    then show ?thesis by (simp add: cacheClient_get_absent)
  next
    case False
    with Some assms have d: "data cA k = Some e" and f: "\<not> truthy (unwrap e)"
      by (auto simp: cacheClient_get_entry)
    show ?thesis using f by (simp add: cacheClient_get_entry [OF d])
  qed
qed

section \<open>Facts about the body of \<open>getWeatherData\<close>\<close>

lemma try_block_hit:
  assumes "location \<noteq> []" and "WEATHER_API_KEY ev = Some apiKey" and "apiKey \<noteq> []"
    and "cacheClient_get now (Str (generateCacheKey location ps)) c = (Inr cached, cA)"
    and "truthy cached"
  shows "try_block ev up now location ps c = (Inr cached, cA, [])"
  using assms by (simp add: try_block_def Let_def)

lemma try_block_miss_ok:
  assumes "location \<noteq> []" and "WEATHER_API_KEY ev = Some apiKey" and "apiKey \<noteq> []"
    and "cacheClient_get now (Str (generateCacheKey location ps)) c = (Inr cached, cA)"
    and "\<not> truthy cached"
    and "up (request_url ev location) (requestParams apiKey ps) = (Responded resp, dt)"
    and "status resp = 200"
  shows "try_block ev up now location ps c =
           (Inr (response_data resp),
            snd (cacheClient_set ev (now + int dt) (Str (generateCacheKey location ps))
                   (response_data resp) (Some (cacheExpiration ev)) cA),
            [UpstreamCall (request_url ev location) (requestParams apiKey ps),
             CacheSet (generateCacheKey location ps)])"
  using assms by (simp add: try_block_def axios_get_def Let_def cacheClient_set_Str)

lemma try_block_miss_rejected:
  assumes "location \<noteq> []" and "WEATHER_API_KEY ev = Some apiKey" and "apiKey \<noteq> []"
    and "cacheClient_get now (Str (generateCacheKey location ps)) c = (Inr cached, cA)"
    and "\<not> truthy cached"
    and "axios_get up (request_url ev location) (requestParams apiKey ps) = (Inl err, dt)"
  shows "try_block ev up now location ps c =
           (Inl err, cA, [UpstreamCall (request_url ev location) (requestParams apiKey ps)])"
  using assms by (simp add: try_block_def Let_def)

lemma try_block_miss_events:
  assumes "location \<noteq> []" and "WEATHER_API_KEY ev = Some apiKey" and "apiKey \<noteq> []"
    and "cacheClient_get now (Str (generateCacheKey location ps)) c = (Inr cached, cA)"
    and "\<not> truthy cached"
  shows "\<exists>es. snd (snd (try_block ev up now location ps c))
           = UpstreamCall (request_url ev location) (requestParams apiKey ps) # es"
  using assms by (simp add: try_block_def Let_def split: prod.splits sum.splits)

lemma getWeatherData_events:
  "snd (snd (getWeatherData ev up now location ps c))
     = snd (snd (try_block ev up now location ps c))"
  by (simp add: getWeatherData_def split: prod.splits sum.splits)

text \<open>Every way in which the body can fail: before the lookup, with the store as it was,
  or after a lookup that missed and one request upstream.\<close>

lemma try_block_failure:
  assumes "try_block ev up now location ps c = (Inl err, c1, evs)"
  shows "(evs = [] \<and> c1 = c)
       \<or> (\<exists>apiKey cached.
            location \<noteq> [] \<and> WEATHER_API_KEY ev = Some apiKey \<and> apiKey \<noteq> []
            \<and> cacheClient_get now (Str (generateCacheKey location ps)) c = (Inr cached, c1)
            \<and> \<not> truthy cached
            \<and> evs = [UpstreamCall (request_url ev location) (requestParams apiKey ps)])"
  using assms cacheClient_get_Inr [of now "Str (generateCacheKey location ps)" c]
  by (auto simp: try_block_def Let_def cacheClient_set_Str
           split: if_splits option.splits prod.splits sum.splits)

text \<open>Two kinds of the taxonomy never share an error.\<close>

lemma thrown_for_inj: "thrown_for k l m = thrown_for k' l' m' \<Longrightarrow> k = k'"
  by (cases k; cases k'; simp add: thrown_for_def)

text \<open>The failing fetch of the scenario: the upstream answers 404.\<close>

lemma failed_fetch_try:
  "try_block example_env not_found_upstream 0 ''Atlantis'' london_params (cache example_env)
     = (Inl (HasResponse not_found_response),
        snd (cacheClient_get 0 (Str (generateCacheKey ''Atlantis'' london_params))
               (cache example_env)),
        [UpstreamCall (request_url example_env ''Atlantis'') (requestParams ''KEY'' london_params)])"
proof -
  have key: "WEATHER_API_KEY example_env = Some ''KEY''" "''KEY'' \<noteq> []"
    by (simp_all add: example_env_def)
  have g: "cacheClient_get 0 (Str (generateCacheKey ''Atlantis'' london_params)) (cache example_env)
             = (Inr Null, snd (cacheClient_get 0 (Str (generateCacheKey ''Atlantis'' london_params))
                                 (cache example_env)))"
    by (simp add: cacheClient_get_absent cache_def new_NodeCache_def)
  have a: "axios_get not_found_upstream (request_url example_env ''Atlantis'')
             (requestParams ''KEY'' london_params) = (Inl (HasResponse not_found_response), 40)"
    by (simp add: axios_get_def not_found_upstream_def not_found_response_def)
  have l: "''Atlantis'' \<noteq> []" and f: "\<not> truthy Null" by simp_all
  from l key g f a show ?thesis by (rule try_block_miss_rejected)
qed

lemma failed_fetch_result: "fst failed_fetch = Inl (Error ''Location not found: Atlantis'')"
  by (simp add: failed_fetch_def getWeatherData_def failed_fetch_try catch_block_def
        not_found_response_def)

lemma failed_fetch_events: "snd (snd failed_fetch) \<noteq> []"
  by (simp add: failed_fetch_def getWeatherData_def failed_fetch_try)

section \<open>Properties of the lookup pipeline\<close>

text \<open>
  C1, cache-aside correctness. Take a location that is not empty, any parameters, a
  configured API key, and a store in which the lookup of the derived key misses. When
  the upstream answers 200 with a body that is truthy (as every object is), the first
  \<open>getWeatherData\<close> returns that body, sends exactly one request upstream and calls
  \<open>cacheClient.set\<close> exactly once, for the derived key. A second \<open>getWeatherData\<close> for the
  same location and parameters on the resulting store, at any time from the moment of
  the set to the end of the time to live, sends nothing upstream, whatever the upstream
  would answer, and returns the same value.
\<close>

theorem cache_aside:
  assumes loc: "location \<noteq> []"
    and key: "WEATHER_API_KEY ev = Some apiKey" "apiKey \<noteq> []"
    and miss: "fst (cacheClient_get now1 (Str (generateCacheKey location ps)) c) = Inr cached"
              "\<not> truthy cached"
    and up: "up1 (request_url ev location) (requestParams apiKey ps) = (Responded resp, dt)"
            "status resp = 200" "truthy (response_data resp)"
    and first: "getWeatherData ev up1 now1 location ps c = (r1, c1, evs1)"
    and window: "now1 + int dt \<le> now2" "now2 \<le> now1 + int dt + cacheExpiration ev * 1000"
    and second: "getWeatherData ev up2 now2 location ps c1 = (r2, c2, evs2)"
  shows "r1 = Inr (response_data resp)
       \<and> evs1 = [UpstreamCall (request_url ev location) (requestParams apiKey ps),
                 CacheSet (generateCacheKey location ps)]
       \<and> evs2 = []
       \<and> r2 = r1"
proof -
  let ?k = "generateCacheKey location ps"
  let ?e = "wrap (now1 + int dt) (response_data resp) (cacheExpiration ev)"
  obtain cA where g1: "cacheClient_get now1 (Str ?k) c = (Inr cached, cA)"
    using miss(1) by (cases "cacheClient_get now1 (Str ?k) c") simp
  have t1: "try_block ev up1 now1 location ps c =
           (Inr (response_data resp),
            snd (cacheClient_set ev (now1 + int dt) (Str ?k) (response_data resp)
                   (Some (cacheExpiration ev)) cA),
            [UpstreamCall (request_url ev location) (requestParams apiKey ps), CacheSet ?k])"
    using loc key g1 miss(2) up(1) up(2) by (rule try_block_miss_ok)
  from first t1 have r1: "r1 = Inr (response_data resp)"
    and c1: "c1 = snd (cacheClient_set ev (now1 + int dt) (Str ?k) (response_data resp)
                         (Some (cacheExpiration ev)) cA)"
    and e1: "evs1 = [UpstreamCall (request_url ev location) (requestParams apiKey ps),
                     CacheSet ?k]"
    by (simp_all add: getWeatherData_def)
  have d1: "data c1 ?k = Some ?e"
    unfolding c1 by (simp add: data_after_set cacheExpiration_nonzero)
  have live: "\<not> (entry_t ?e \<noteq> 0 \<and> entry_t ?e < now2)"
    using window(2) by (simp add: wrap_def cacheExpiration_nonzero)
  have unw: "unwrap ?e = response_data resp"
    using up(3) by (auto simp: unwrap_def wrap_def)
  have g2: "cacheClient_get now2 (Str ?k) c1 =
              (Inr (response_data resp), c1\<lparr>stats := (stats c1)\<lparr>hits := hits (stats c1) + 1\<rparr>\<rparr>)"
    using live unw by (auto simp: cacheClient_get_entry [OF d1])
  have t2: "try_block ev up2 now2 location ps c1 =
              (Inr (response_data resp),
               c1\<lparr>stats := (stats c1)\<lparr>hits := hits (stats c1) + 1\<rparr>\<rparr>, [])"
    using loc key g2 up(3) by (rule try_block_hit)
  from second t2 have "r2 = Inr (response_data resp)" and "evs2 = []"
    by (simp_all add: getWeatherData_def)
  with r1 e1 show ?thesis by simp
qed

theorem cache_aside_witness:
  "fst first_fetch = Inr (Ref 1)
   \<and> snd (snd first_fetch)
       = [UpstreamCall (request_url example_env ''London'') (requestParams ''KEY'' london_params),
          CacheSet (generateCacheKey ''London'' london_params)]
   \<and> snd (snd second_fetch) = []
   \<and> fst second_fetch = fst first_fetch"
proof -
  have loc: "''London'' \<noteq> []" by simp
  have key: "WEATHER_API_KEY example_env = Some ''KEY''" "''KEY'' \<noteq> []"
    by (simp_all add: example_env_def)
  have miss: "fst (cacheClient_get 0 (Str (generateCacheKey ''London'' london_params))
                     (cache example_env)) = Inr Null" "\<not> truthy Null"
    by (simp_all add: cacheClient_get_absent cache_def new_NodeCache_def)
  have up: "stub_upstream (request_url example_env ''London'') (requestParams ''KEY'' london_params)
              = (Responded london_response, 250)"
    "status london_response = 200" "truthy (response_data london_response)"
    by (simp_all add: stub_upstream_def london_response_def)
  have first: "getWeatherData example_env stub_upstream 0 ''London'' london_params (cache example_env)
                 = (fst first_fetch, fst (snd first_fetch), snd (snd first_fetch))"
    by (simp add: first_fetch_def)
  have window: "0 + int 250 \<le> 1000" "1000 \<le> 0 + int 250 + cacheExpiration example_env * 1000"
    by (simp_all add: cacheExpiration_def example_env_def)
  have second: "getWeatherData example_env silent_upstream 1000 ''London'' london_params
                  (fst (snd first_fetch))
                 = (fst second_fetch, fst (snd second_fetch), snd (snd second_fetch))"
    by (simp add: second_fetch_def)
  from cache_aside [where ?up1.0 = stub_upstream and ?up2.0 = silent_upstream,
                    OF loc key miss up first window second]
  show ?thesis by (simp add: london_response_def)
qed

text \<open>
  C2, error classification. Take a fetch that reaches the upstream (a location, a
  configured API key, a lookup that misses). When the upstream's answer has a status
  outside 200..299, or when no answer comes back, \<open>getWeatherData\<close> fails with the error
  that stands for the kind the specification's table gives: 400 is \<open>InvalidRequest\<close>, 401
  and 403 are \<open>AuthenticationError\<close>, 404 is \<open>LocationNotFound\<close>, 429 is
  \<open>RateLimitExceeded\<close>, any other such status is \<open>UpstreamError\<close>, and no response is
  \<open>UpstreamUnavailable\<close>.
\<close>

theorem error_classification:
  assumes loc: "location \<noteq> []"
    and key: "WEATHER_API_KEY ev = Some apiKey" "apiKey \<noteq> []"
    and miss: "fst (cacheClient_get now (Str (generateCacheKey location ps)) c) = Inr cached"
              "\<not> truthy cached"
    and up: "fst (up (request_url ev location) (requestParams apiKey ps)) = signal"
    and kind: "spec_classify signal = Some kind"
  shows "fst (getWeatherData ev up now location ps c)
           = Inl (thrown_for kind location (signal_message signal))"
proof -
  let ?k = "generateCacheKey location ps"
  let ?url = "request_url ev location" and ?rps = "requestParams apiKey ps"
  obtain cA where g: "cacheClient_get now (Str ?k) c = (Inr cached, cA)"
    using miss(1) by (cases "cacheClient_get now (Str ?k) c") simp
  obtain dt where u: "up ?url ?rps = (signal, dt)"
    using up by (cases "up ?url ?rps") simp
  show ?thesis
  proof (cases signal)
    case (Responded resp)
    with kind have out: "\<not> (200 \<le> status resp \<and> status resp < 300)"
      by (auto simp: spec_classify_def split: if_splits)
    with u Responded have a: "axios_get up ?url ?rps = (Inl (HasResponse resp), dt)"
      by (simp add: axios_get_def)
    have t: "try_block ev up now location ps c
               = (Inl (HasResponse resp), cA, [UpstreamCall ?url ?rps])"
      using loc key g miss(2) a by (rule try_block_miss_rejected)
    from kind Responded out show ?thesis
      by (auto simp: getWeatherData_def t catch_block_def Let_def spec_classify_def
            thrown_for_def signal_message_def errorMessage_def split: if_splits)
  next
    case NoResponse
    with u have a: "axios_get up ?url ?rps = (Inl HasRequest, dt)"
      by (simp add: axios_get_def)
    have t: "try_block ev up now location ps c = (Inl HasRequest, cA, [UpstreamCall ?url ?rps])"
      using loc key g miss(2) a by (rule try_block_miss_rejected)
    from kind NoResponse show ?thesis
      by (simp add: getWeatherData_def t catch_block_def spec_classify_def thrown_for_def)
  next
    case (NotSent m)
    with kind show ?thesis by (simp add: spec_classify_def)
  qed
qed

theorem error_classification_witness:
  "fst failed_fetch = Inl (Error ''Location not found: Atlantis'')
   \<and> fst (getWeatherData example_env silent_upstream 0 ''London'' london_params (cache example_env))
       = Inl (Error ''No response from weather service. Please try again later.'')"
proof -
  have key: "WEATHER_API_KEY example_env = Some ''KEY''" "''KEY'' \<noteq> []"
    by (simp_all add: example_env_def)
  have miss: "fst (cacheClient_get 0 (Str (generateCacheKey l london_params))
                     (cache example_env)) = Inr Null" "\<not> truthy Null" for l
    by (simp_all add: cacheClient_get_absent cache_def new_NodeCache_def)
  have up1: "fst (not_found_upstream (request_url example_env ''Atlantis'')
                    (requestParams ''KEY'' london_params)) = Responded not_found_response"
    by (simp add: not_found_upstream_def)
  have k1: "spec_classify (Responded not_found_response) = Some LocationNotFound"
    by (simp add: spec_classify_def not_found_response_def)
  have up2: "fst (silent_upstream (request_url example_env ''London'')
                    (requestParams ''KEY'' london_params)) = NoResponse"
    by (simp add: silent_upstream_def)
  have k2: "spec_classify NoResponse = Some UpstreamUnavailable"
    by (simp add: spec_classify_def)
  have a: "''Atlantis'' \<noteq> []" and l: "''London'' \<noteq> []" by simp_all
  from error_classification [where up = not_found_upstream, OF a key miss up1 k1]
       error_classification [where up = silent_upstream, OF l key miss up2 k2]
  show ?thesis by (simp add: failed_fetch_def thrown_for_def)
qed

text \<open>
  C3, failures are never cached. When \<open>getWeatherData\<close> fails, for whatever reason, it has
  not called \<open>cacheClient.set\<close>: it has sent at most one request upstream and nothing
  else. The store holds no entry that it did not hold before, and what a reader can
  observe of it, at the time of the call and at any later time, is what it was. When
  the failure came after a request upstream, a repeat of the fetch on the resulting
  store sends a request upstream again.
\<close>

theorem failures_not_cached:
  assumes fail: "getWeatherData ev up now location ps c = (Inl err, c1, evs)"
  shows "(evs = [] \<or> (\<exists>url rps. evs = [UpstreamCall url rps]))
       \<and> data c1 \<subseteq>\<^sub>m data c
       \<and> (\<forall>now2 k. now \<le> now2 \<longrightarrow> contents now2 c1 k = contents now2 c k)
       \<and> (evs \<noteq> [] \<longrightarrow>
            (\<forall>up2 now2. now \<le> now2 \<longrightarrow>
               (\<exists>url rps es. snd (snd (getWeatherData ev up2 now2 location ps c1))
                                = UpstreamCall url rps # es)))"
proof -
  obtain err0 where t: "try_block ev up now location ps c = (Inl err0, c1, evs)"
    using fail by (auto simp: getWeatherData_def split: prod.splits sum.splits)
  from try_block_failure [OF t] show ?thesis
  proof
    assume "evs = [] \<and> c1 = c"
    then show ?thesis by simp
  next
    assume "\<exists>apiKey cached.
            location \<noteq> [] \<and> WEATHER_API_KEY ev = Some apiKey \<and> apiKey \<noteq> []
            \<and> cacheClient_get now (Str (generateCacheKey location ps)) c = (Inr cached, c1)
            \<and> \<not> truthy cached
            \<and> evs = [UpstreamCall (request_url ev location) (requestParams apiKey ps)]"
    then obtain apiKey cached where loc: "location \<noteq> []"
      and key: "WEATHER_API_KEY ev = Some apiKey" "apiKey \<noteq> []"
      and g: "cacheClient_get now (Str (generateCacheKey location ps)) c = (Inr cached, c1)"
      and falsy: "\<not> truthy cached"
      and evs: "evs = [UpstreamCall (request_url ev location) (requestParams apiKey ps)]"
      by blast
    let ?k = "generateCacheKey location ps"
    from cacheClient_get_data [OF g]
    have d: "data c1 = data c
       \<or> (\<exists>e. data c ?k = Some e \<and> entry_t e \<noteq> 0 \<and> entry_t e < now
              \<and> data c1 = (data c)(?k := None))" .
    have sub: "data c1 \<subseteq>\<^sub>m data c"
      using d by (auto simp: map_le_def split: if_splits)
    have same: "contents now2 c1 k = contents now2 c k" if "now \<le> now2" for now2 k
      using d that by (auto simp: contents_def split: if_splits)
    have retry: "\<exists>url rps es. snd (snd (getWeatherData ev up2 now2 location ps c1))
                                = UpstreamCall url rps # es" if "now \<le> now2" for up2 now2
    proof -
      from miss_persists [OF g falsy that]
      obtain val2 cB where g2: "cacheClient_get now2 (Str ?k) c1 = (Inr val2, cB)"
        and f2: "\<not> truthy val2" by blast
      from try_block_miss_events [OF loc key g2 f2, of up2]
      show ?thesis by (auto simp: getWeatherData_events)
    qed
    from evs sub same retry show ?thesis by blast
  qed
qed

theorem failures_not_cached_witness:
  "fst failed_fetch = Inl (Error ''Location not found: Atlantis'')
   \<and> data (fst (snd failed_fetch)) \<subseteq>\<^sub>m data (cache example_env)
   \<and> contents 5 (fst (snd failed_fetch)) (generateCacheKey ''Atlantis'' london_params)
       = contents 5 (cache example_env) (generateCacheKey ''Atlantis'' london_params)
   \<and> (\<exists>url rps es.
         snd (snd (getWeatherData example_env stub_upstream 5 ''Atlantis'' london_params
                     (fst (snd failed_fetch))))
           = UpstreamCall url rps # es)"
proof -
  have r: "fst failed_fetch = Inl (Error ''Location not found: Atlantis'')"
    by (rule failed_fetch_result)
  have e: "snd (snd failed_fetch) \<noteq> []"
    by (rule failed_fetch_events)
  have f: "getWeatherData example_env not_found_upstream 0 ''Atlantis'' london_params
             (cache example_env)
           = (Inl (Error ''Location not found: Atlantis''), fst (snd failed_fetch),
              snd (snd failed_fetch))"
    using r by (simp add: failed_fetch_def prod_eq_iff)
  from failures_not_cached [OF f] e r show ?thesis by simp
qed

section \<open>Properties of the cache key\<close>

text \<open>
  C4, the cache key and the order of the entries. As stated, the claim fails: the key
  lists the entries in the order of the mapping, so two mappings with the same entries
  in another order derive different keys.
\<close>

theorem cache_key_order_counterexample:
  "set [(''unitGroup'', Str ''metric''), (''include'', Str ''days'')]
     = set [(''include'', Str ''days''), (''unitGroup'', Str ''metric'')]
   \<and> generateCacheKey ''London'' [(''unitGroup'', Str ''metric''), (''include'', Str ''days'')]
       = ''weather:London:unitGroup=metric&include=days''
   \<and> generateCacheKey ''London'' [(''include'', Str ''days''), (''unitGroup'', Str ''metric'')]
       = ''weather:London:include=days&unitGroup=metric''
   \<and> generateCacheKey ''London'' [(''unitGroup'', Str ''metric''), (''include'', Str ''days'')]
       \<noteq> generateCacheKey ''London'' [(''include'', Str ''days''), (''unitGroup'', Str ''metric'')]"
  by (auto simp: generateCacheKey_def)

text \<open>
  C4 as amended: the cache key is determined by the location and by the entries whose
  value is neither \<open>undefined\<close> nor \<open>null\<close>, in the order in which the mapping lists them.
  Two mappings with the same such entries in the same order derive the same key,
  wherever their other entries stand.
\<close>

theorem cache_key_defined_entries:
  assumes "defined_entries ps = defined_entries qs"
  shows "generateCacheKey location ps = generateCacheKey location qs"
  using assms by (simp add: generateCacheKey_def defined_entries_def)

theorem cache_key_defined_entries_witness:
  "generateCacheKey ''London'' [(''unitGroup'', Str ''metric''), (''include'', Undefined)]
     = generateCacheKey ''London'' [(''elements'', Null), (''unitGroup'', Str ''metric'')]"
proof -
  have "defined_entries [(''unitGroup'', Str ''metric''), (''include'', Undefined)]
          = defined_entries [(''elements'', Null), (''unitGroup'', Str ''metric'')]"
    by (simp add: defined_entries_def)
  then show ?thesis by (rule cache_key_defined_entries)
qed

section \<open>Properties of the cache store\<close>

text \<open>
  C5, expiry. As stated, the claim fails at the instant of expiry: an entry set at time 0
  to live one second has \<open>t = 1000\<close>, and a \<open>get\<close> at time 1000, which is not strictly
  before 1000, still returns it.
\<close>

theorem expiry_boundary_counterexample:
  "data store_with_entry ''k'' = Some \<lparr>entry_t = 1000, entry_v = Str ''v''\<rparr>
   \<and> fst (cacheClient_get 1000 (Str ''k'') store_with_entry) = Inr (Str ''v'')
   \<and> \<not> spec_observable 1000 \<lparr>entry_t = 1000, entry_v = Str ''v''\<rparr>"
proof -
  have d: "data store_with_entry ''k'' = Some \<lparr>entry_t = 1000, entry_v = Str ''v''\<rparr>"
    by (simp add: store_with_entry_def data_after_set wrap_def)
  show ?thesis
    by (simp add: d cacheClient_get_entry [OF d] unwrap_def spec_observable_def)
qed

text \<open>
  C5 as amended: an entry with a time of expiry (and a value other than \<open>undefined\<close> and
  \<open>null\<close>) is returned by \<open>get\<close> if and only if the clock is not past that time, the instant
  of expiry included; once the clock is past it, \<open>get\<close> returns \<open>null\<close> although the entry
  is still in the store, not yet swept.
\<close>

theorem get_observable_iff:
  assumes "data c k = Some e" and "entry_t e \<noteq> 0"
    and "entry_v e \<noteq> Undefined" and "entry_v e \<noteq> Null"
  shows "(fst (cacheClient_get now (Str k) c) = Inr (entry_v e)) = (now \<le> entry_t e)
       \<and> (entry_t e < now \<longrightarrow> fst (cacheClient_get now (Str k) c) = Inr Null)"
  using assms by (auto simp: cacheClient_get_entry unwrap_def)

theorem get_observable_iff_witness:
  "fst (cacheClient_get 999 (Str ''k'') store_with_entry) = Inr (Str ''v'')
   \<and> fst (cacheClient_get 1001 (Str ''k'') store_with_entry) = Inr Null"
proof -
  let ?e = "\<lparr>entry_t = 1000, entry_v = Str ''v''\<rparr>"
  have d: "data store_with_entry ''k'' = Some ?e"
    by (simp add: store_with_entry_def data_after_set wrap_def)
  have t: "entry_t ?e \<noteq> 0" and u: "entry_v ?e \<noteq> Undefined" and n: "entry_v ?e \<noteq> Null"
    by simp_all
  from get_observable_iff [OF d t u n, of 999] get_observable_iff [OF d t u n, of 1001]
  show ?thesis by simp
qed

text \<open>
  C6, the time to live of \<open>set\<close>. As stated, the claim fails: a time to live of 0 and a
  negative one are accepted, and the call answers \<open>OK\<close>.
\<close>

theorem set_ttl_counterexample:
  "fst (cacheClient_set example_env 0 (Str ''k'') (Str ''v'') (Some 0) (cache example_env))
     = Inr ''OK''
   \<and> fst (cacheClient_set example_env 0 (Str ''k'') (Str ''v'') (Some (- 5)) (cache example_env))
       = Inr ''OK''"
  by (simp add: cacheClient_set_Str)

text \<open>
  C6 as amended: \<open>set\<close> with a string key never rejects a time to live. Without one, and
  with 0, the entry gets the configured baseline (43200 seconds when \<open>CACHE_EXPIRATION\<close>
  is not set); any other time to live, a negative one too, is used as it is given.
\<close>

theorem cacheClient_set_ttl:
  "fst (cacheClient_set ev now (Str k) val opt_EX c) = Inr ''OK''
   \<and> data (snd (cacheClient_set ev now (Str k) val None c)) k
       = Some (wrap now val (cacheExpiration ev))
   \<and> data (snd (cacheClient_set ev now (Str k) val (Some 0) c)) k
       = Some (wrap now val (cacheExpiration ev))
   \<and> (x \<noteq> 0 \<longrightarrow> data (snd (cacheClient_set ev now (Str k) val (Some x) c)) k
                    = Some (wrap now val x))
   \<and> (CACHE_EXPIRATION ev = None \<longrightarrow> cacheExpiration ev = 43200)"
  by (simp add: cacheClient_set_Str cacheExpiration_default)

theorem cacheClient_set_ttl_witness:
  "data (snd (cacheClient_set example_env 0 (Str ''k'') (Str ''v'') None (cache example_env))) ''k''
     = Some \<lparr>entry_t = 43200000, entry_v = Str ''v''\<rparr>
   \<and> data (snd (cacheClient_set example_env 0 (Str ''k'') (Str ''v'') (Some (- 5))
                 (cache example_env))) ''k''
       = Some \<lparr>entry_t = - 5000, entry_v = Str ''v''\<rparr>"
proof -
  have n: "CACHE_EXPIRATION example_env = None" by (simp add: example_env_def)
  have x: "(- 5 :: int) \<noteq> 0" by simp
  from cacheClient_set_ttl [of example_env 0 "''k''" "Str ''v''" None "cache example_env" "- 5"]
       n x
  show ?thesis by (simp add: wrap_def)
qed

text \<open>
  C7, flush. As stated, the claim fails: after one miss the counter of misses is 1, and
  the flush sets it to 0.
\<close>

theorem flush_counters_counterexample:
  "misses (stats store_after_miss) = 1
   \<and> misses (stats (snd (cacheClient_flushAll store_after_miss))) = 0"
  by (simp add: store_after_miss_def cacheClient_get_absent cache_def new_NodeCache_def
        cacheClient_flushAll_def NodeCache_flushAll_def)

text \<open>
  C7 as amended: from every state of the store, the flush answers \<open>OK\<close>, leaves no entry
  (every \<open>get\<close> that follows returns \<open>null\<close> until something is set), and starts the
  counters of hits and misses again from zero.
\<close>

theorem flushAll_resets:
  "fst (cacheClient_flushAll c) = Inr ''OK''
   \<and> data (snd (cacheClient_flushAll c)) = Map.empty
   \<and> fst (cacheClient_get now key (snd (cacheClient_flushAll c))) = Inr Null
   \<and> hits (stats (snd (cacheClient_flushAll c))) = 0
   \<and> misses (stats (snd (cacheClient_flushAll c))) = 0"
  by (auto simp: cacheClient_flushAll_def NodeCache_flushAll_def cacheClient_get_def
        NodeCache_get_def)

theorem flushAll_resets_witness:
  "data (snd (cacheClient_flushAll store_with_entry)) = Map.empty
   \<and> fst (cacheClient_get 1 (Str ''k'') (snd (cacheClient_flushAll store_with_entry))) = Inr Null
   \<and> hits (stats (snd (cacheClient_flushAll store_with_entry))) = 0
   \<and> misses (stats (snd (cacheClient_flushAll store_with_entry))) = 0"
  using flushAll_resets [of store_with_entry 1 "Str ''k''"] by simp

text \<open>
  C9, ownership of the cached values. As stated, the claim fails: the store holds the
  reference it was given. After \<open>set\<close> of the object at address 1, an assignment to a
  field of that object by the caller changes what a reader gets from the store, which
  itself has not changed.
\<close>

theorem value_semantics_counterexample:
  "observed example_heap 1 ''k'' store_with_object = Some [(''temp'', Num 12)]
   \<and> observed (assign_field example_heap (Ref 1) ''temp'' (Num 99)) 1 ''k'' store_with_object
       = Some [(''temp'', Num 99)]"
proof -
  have d: "data store_with_object ''k''
             = Some (wrap 0 (Ref 1) (cacheExpiration example_env))"
    by (simp add: store_with_object_def data_after_set)
  have g: "fst (cacheClient_get 1 (Str ''k'') store_with_object) = Inr (Ref 1)"
    by (simp add: cacheClient_get_entry [OF d] wrap_def unwrap_def cacheExpiration_def
          example_env_def)
  show ?thesis
    by (simp add: observed_def g deref_def assign_field_def example_heap_def)
qed

text \<open>
  C9 as amended: the store keeps and returns references, without a copy. Within the time
  to live, \<open>get\<close> returns the very reference that was passed to \<open>set\<close>, so a reader
  observes the object as the heap has it at that moment: after an assignment to a field
  through the reference, every reader sees the object with the field assigned.
\<close>

theorem store_keeps_reference:
  assumes "now \<le> now1" and "now1 \<le> now + cacheExpiration ev * 1000"
  shows "fst (cacheClient_get now1 (Str k) (snd (cacheClient_set ev now (Str k) (Ref a) None c)))
           = Inr (Ref a)
       \<and> observed h now1 k (snd (cacheClient_set ev now (Str k) (Ref a) None c)) = h a
       \<and> observed (assign_field h (Ref a) name x) now1 k
             (snd (cacheClient_set ev now (Str k) (Ref a) None c))
           = map_option (AList.update name x) (h a)"
proof -
  let ?c1 = "snd (cacheClient_set ev now (Str k) (Ref a) None c)"
  have d: "data ?c1 k = Some (wrap now (Ref a) (cacheExpiration ev))"
    by (simp add: data_after_set)
  have g: "fst (cacheClient_get now1 (Str k) ?c1) = Inr (Ref a)"
    using assms by (simp add: cacheClient_get_entry [OF d] wrap_def unwrap_def)
  show ?thesis
    by (simp add: g observed_def deref_def assign_field_def split: option.splits)
qed

theorem store_keeps_reference_witness:
  "fst (cacheClient_get 1 (Str ''k'') store_with_object) = Inr (Ref 1)
   \<and> observed (assign_field example_heap (Ref 1) ''temp'' (Num 99)) 1 ''k'' store_with_object
       = map_option (AList.update ''temp'' (Num 99)) (example_heap 1)"
proof -
  have a: "(0::int) \<le> 1" and b: "(1::int) \<le> 0 + cacheExpiration example_env * 1000"
    by (simp_all add: cacheExpiration_def example_env_def)
  from store_keeps_reference [OF a b, of "''k''" 1 "cache example_env" example_heap "''temp''" "Num 99"]
  show ?thesis by (simp add: store_with_object_def)
qed

text \<open>
  C10, reads never throw. For every key, valid or not, and every state of the store,
  \<open>cacheClient.get\<close> returns, and what it returns is \<open>null\<close> or the value stored under the
  key; an error thrown by the store is turned into \<open>null\<close>.
\<close>

theorem cacheClient_get_total:
  "\<exists>val c1. cacheClient_get now key c = (Inr val, c1)
       \<and> (val = Null \<or> (\<exists>e. data c (ToString key) = Some e \<and> val = entry_v e))"
proof -
  obtain r c1 where g: "NodeCache_get now key c = (r, c1)"
    by (cases "NodeCache_get now key c")
  from NodeCache_get_cases [OF g] show ?thesis
    using g by (auto simp: cacheClient_get_def unwrap_def)
qed

theorem cacheClient_get_total_witness:
  "fst (cacheClient_get 0 (Bool True) store_with_entry) = Inr Null"
proof -
  have "data store_with_entry (ToString (Bool True)) = None"
    by (simp add: store_with_entry_def cacheClient_set_Str cache_def new_NodeCache_def)
  with cacheClient_get_total [of 0 "Bool True" store_with_entry]
  show ?thesis by auto
qed

section \<open>Properties of the forecast route\<close>

text \<open>A count written in decimal digits is read the same way by the test of the route
  and by \<open>parseInt\<close>: the route then returns the first so many days.\<close>

lemma digit_not_ws: "is_digit 10 ch \<Longrightarrow> \<not> is_ws ch"
  by (auto simp: is_digit_def digit_of_def is_ws_def Let_def split: if_splits option.splits)

lemma digit_10_range: "is_digit 10 ch \<Longrightarrow> 48 \<le> (of_char ch :: nat) \<and> (of_char ch :: nat) \<le> 57"
  by (auto simp: is_digit_def digit_of_def Let_def split: if_splits)

lemma digits_head:
  assumes "s \<noteq> []" and "list_all (is_digit 10) s"
  shows "is_digit 10 (hd s)" and "is_digit 10 (last s)"
  using assms by (auto simp: list_all_iff)

lemma digits_no_prefix:
  assumes "s \<noteq> []" and "list_all (is_digit 10) s" and "\<not> is_digit 10 ch"
  shows "\<not> starts_with [ch] s" and "\<not> starts_with [d, ch] s"
proof -
  show "\<not> starts_with [ch] s"
    using assms by (cases s) (auto simp: starts_with_def)
  show "\<not> starts_with [d, ch] s"
    using assms by (cases s; cases "tl s") (auto simp: starts_with_def)
qed

lemma digits_trim:
  assumes "s \<noteq> []" and "list_all (is_digit 10) s"
  shows "trim s = s"
proof -
  have h: "\<not> is_ws (hd s)" and l: "\<not> is_ws (last s)"
    using digits_head [OF assms] by (auto dest: digit_not_ws)
  have 1: "dropWhile is_ws s = s"
    using assms(1) h by (cases s) auto
  have "rev s \<noteq> []" and "\<not> is_ws (hd (rev s))"
    using assms(1) l by (auto simp: hd_rev)
  then have 2: "dropWhile is_ws (rev s) = rev s"
    by (cases "rev s") auto
  show ?thesis by (simp add: trim_def 1 2)
qed

lemma digits_parseInt:
  assumes "s \<noteq> []" and "list_all (is_digit 10) s"
  shows "parseInt s = Some (int (digits_value 10 s))"
proof -
  have 1: "dropWhile is_ws s = s"
    using assms digits_head(1) [OF assms] by (cases s) (auto dest: digit_not_ws)
  have np: "\<not> starts_with ''-'' s" "\<not> starts_with ''+'' s"
           "\<not> starts_with ''0x'' s" "\<not> starts_with ''0X'' s"
    by (rule digits_no_prefix [OF assms], simp add: is_digit_def digit_of_def)+
  have tw: "takeWhile (is_digit 10) s = s"
    using assms(2) by (simp add: list_all_iff)
  show ?thesis
    using assms(1) by (simp add: parseInt_def 1 np tw)
qed

lemma digits_StringToNumber:
  assumes "s \<noteq> []" and "list_all (is_digit 10) s"
  shows "StringToNumber s = Dec (int (digits_value 10 s)) 0"
proof -
  have np: "\<not> starts_with ''-'' s" "\<not> starts_with ''+'' s"
           "\<not> starts_with ''0x'' s" "\<not> starts_with ''0X'' s"
           "\<not> starts_with ''0o'' s" "\<not> starts_with ''0O'' s"
           "\<not> starts_with ''0b'' s" "\<not> starts_with ''0B'' s"
    by (rule digits_no_prefix [OF assms], simp add: is_digit_def digit_of_def)+
  have tw: "takeWhile (is_digit 10) s = s" and dw: "dropWhile (is_digit 10) s = []"
    using assms(2) by (simp_all add: list_all_iff)
  have ni: "s \<noteq> ''Infinity''"
    using assms(2) by (auto simp: is_digit_def digit_of_def)
  have ud: "unsigned_decimal s = Dec (int (digits_value 10 s)) 0"
    using assms(1) by (simp add: unsigned_decimal_def ni tw dw starts_with_def)
  show ?thesis
    using assms(1) by (simp add: StringToNumber_def digits_trim [OF assms] np ud)
qed

lemma forecastDays_decimal_count:
  assumes "s \<noteq> []" and "list_all (is_digit 10) s"
  shows "forecastDays xs (Some s)
           = (if 0 < digits_value 10 s then take (digits_value 10 s) xs else xs)"
  using assms(1)
  by (simp add: forecastDays_def isNaN_def greater_than_zero_def slice0_def
        digits_StringToNumber [OF assms] digits_parseInt [OF assms])

lemma forecastDays_ignored:
  "forecastDays xs None = xs"
  "forecastDays xs (Some []) = xs"
  "isNaN s \<Longrightarrow> forecastDays xs (Some s) = xs"
  "\<not> greater_than_zero s \<Longrightarrow> forecastDays xs (Some s) = xs"
  by (simp_all add: forecastDays_def)

text \<open>
  C8, truncation of the forecast. The claim holds for a count written in decimal digits,
  and for a count that is absent, empty, not a number or not positive. It fails where the
  test of the route and \<open>parseInt\<close> read the count differently: \<open>1e3\<close> is a number, 1000,
  and is greater than 0, so the route truncates; but \<open>parseInt\<close> reads it as 1, and of ten
  days the route returns the first one, not the ten that the count allows.
\<close>

theorem forecast_count_1e3:
  "StringToNumber ''1e3'' = Dec 1 3
   \<and> \<not> isNaN ''1e3''
   \<and> greater_than_zero ''1e3''
   \<and> parseInt ''1e3'' = Some 1
   \<and> forecastDays ten_days (Some ''1e3'') = [1]"
  by code_simp

end
